theory Spec2Isabelle
  imports Main
begin

section \<open>Realtime chat client: markdown-renderer.js and ai-chat.js\<close>

text \<open>
  A shallow embedding of the chat page's scripts. JavaScript strings are sequences of
  UTF-16 code units; they are modelled as \<open>string\<close>, read as the code units below 256
  (so U+00A0 is \<open>CHR 0xA0\<close>). The module-level variables of ai-chat.js and the parts of
  the page the handlers touch form one record, passed through every function. A function
  that can throw returns the state it reached together with the exception, since a
  JavaScript exception does not undo the assignments made before it.
\<close>

subsection \<open>markdown-renderer.js\<close>

text \<open>
  \<open>escapeHtml\<close> assigns the text to \<open>textContent\<close> of a fresh element and reads
  \<open>innerHTML\<close> back. The serialisation of a text node replaces \<open>&\<close>, U+00A0, \<open><\<close>
  and \<open>>\<close> by character references and copies every other code unit.
\<close>

definition escape_unit :: "char \<Rightarrow> string" where
  "escape_unit c =
     (if c = CHR ''&'' then ''&amp;''
      else if c = CHR 0xA0 then ''&nbsp;''
      else if c = CHR ''<'' then ''&lt;''
      else if c = CHR ''>'' then ''&gt;''
      else [c])"

definition escapeHtml :: "string \<Rightarrow> string" where
  "escapeHtml text = concat (map escape_unit text)"

text \<open>\<open>.replace(/\n/g, '<br>')\<close>: every line feed becomes the three-character tag.\<close>

definition replace_newlines :: "string \<Rightarrow> string" where
  "replace_newlines h = concat (map (\<lambda>c. if c = CHR 0x0A then ''<br>'' else [c]) h)"

text \<open>
  \<open>wrapCodeBlocks\<close> is one global regular-expression replacement with the pattern
  \<^verbatim>\<open><pre><code class="language-(\w+)">([\s\S]*?)<\/code><\/pre>\<close>.
  \<open>match_here\<close> tries the pattern at the start of the input: the literal opening, a
  greedy non-empty run of word characters, the literal \<^verbatim>\<open>">\<close>, then the shortest body
  that is followed by the literal closing. It returns the two groups and the input left
  after the match.
\<close>

definition is_word :: "char \<Rightarrow> bool" where
  "is_word c \<longleftrightarrow>
     (let n = of_char c :: nat in
      (48 \<le> n \<and> n \<le> 57) \<or> (65 \<le> n \<and> n \<le> 90) \<or> (97 \<le> n \<and> n \<le> 122) \<or> n = 95)"

fun strip_prefix :: "string \<Rightarrow> string \<Rightarrow> string option" where
  "strip_prefix [] s = Some s"
| "strip_prefix (p # ps) [] = None"
| "strip_prefix (p # ps) (c # cs) = (if p = c then strip_prefix ps cs else None)"

definition code_open :: string where
  \<open>code_open = ''<pre><code class="language-''\<close>

definition code_close :: string where
  \<open>code_close = ''</code></pre>''\<close>

fun find_close :: "string \<Rightarrow> (string \<times> string) option" where
  "find_close [] = None"
| "find_close (c # cs) =
     (case strip_prefix code_close (c # cs) of
        Some rest \<Rightarrow> Some ([], rest)
      | None \<Rightarrow> (case find_close cs of
                  None \<Rightarrow> None
                | Some (code, rest) \<Rightarrow> Some (c # code, rest)))"

definition match_here :: "string \<Rightarrow> (string \<times> string \<times> string) option" where
  \<open>match_here s =
     (case strip_prefix code_open s of
        None \<Rightarrow> None
      | Some r \<Rightarrow>
          (let language = takeWhile is_word r in
           if language = [] then None
           else (case strip_prefix ''">'' (dropWhile is_word r) of
                   None \<Rightarrow> None
                 | Some body \<Rightarrow>
                     (case find_close body of
                        None \<Rightarrow> None
                      | Some (code, rest) \<Rightarrow> Some (language, code, rest)))))\<close>

text \<open>The replacement template, with the line breaks and indentation of the source.\<close>

definition wrapper :: "string \<Rightarrow> string \<Rightarrow> string" where
  \<open>wrapper language code =
     ''\<newline>            <div class="code-block-wrapper">'' @
     ''\<newline>                <div class="code-block-header">'' @
     ''\<newline>                    <span class="code-language">'' @ language @ ''</span>'' @
     ''\<newline>                    <button class="btn-copy-code" onclick="copyCode(this)">Copy</button>'' @
     ''\<newline>                </div>'' @
     ''\<newline>                <pre><code class="language-'' @ language @ ''">'' @ code @ ''</code></pre>'' @
     ''\<newline>            </div>'' @
     ''\<newline>        ''\<close>

lemma strip_prefix_length: "strip_prefix p s = Some r \<Longrightarrow> length s = length p + length r"
  by (induction p s rule: strip_prefix.induct) (auto split: if_splits)

lemma find_close_length: "find_close s = Some (code, rest) \<Longrightarrow> length rest < length s"
proof (induction s arbitrary: code rest)
  case Nil
  then show ?case by simp
next
  case (Cons c cs)
  show ?case
  proof (cases "strip_prefix code_close (c # cs)")
    case (Some r)
    with Cons.prems have "rest = r" by simp
    moreover have "length (c # cs) = length code_close + length r"
      using Some by (rule strip_prefix_length)
    ultimately show ?thesis by (simp add: code_close_def)
  next
    case None
    with Cons.prems obtain code' where "find_close cs = Some (code', rest)"
      by (auto split: option.splits)
    with Cons.IH have "length rest < length cs" by blast
    then show ?thesis by simp
  qed
qed

lemma match_here_length: "match_here s = Some (language, code, rest) \<Longrightarrow> length rest < length s"
proof -
  assume m: "match_here s = Some (language, code, rest)"
  then obtain r body where r: "strip_prefix code_open s = Some r"
    and b: \<open>strip_prefix ''">'' (dropWhile is_word r) = Some body\<close>
    and f: "find_close body = Some (code, rest)"
    by (auto simp: match_here_def Let_def split: option.splits if_splits)
  have "length rest < length body" using f by (rule find_close_length)
  also have "length body \<le> length (dropWhile is_word r)"
    using strip_prefix_length [OF b] by simp
  also have "\<dots> \<le> length r" by (rule length_dropWhile_le)
  also have "\<dots> \<le> length s" using strip_prefix_length [OF r] by simp
  finally show ?thesis .
qed

function wrapCodeBlocks :: "string \<Rightarrow> string" where
  "wrapCodeBlocks [] = []"
| "wrapCodeBlocks (c # cs) =
     (case match_here (c # cs) of
        Some (language, code, rest) \<Rightarrow> wrapper language code @ wrapCodeBlocks rest
      | None \<Rightarrow> c # wrapCodeBlocks cs)"
  by pat_completeness auto
termination
  by (relation "measure length") (auto dest: match_here_length)

text \<open>
  \<open>marked.parse\<close> belongs to the marked.js library, which is not part of the repository:
  it is a parameter \<open>mp\<close> of the model, returning the HTML or throwing.
\<close>

datatype exn = TypeError | InvalidStateError | SyntaxError | MarkedError

type_synonym marked = "string \<Rightarrow> exn + string"

definition renderMarkdown :: "marked \<Rightarrow> string \<Rightarrow> string" where
  "renderMarkdown mp markdown =
     (if markdown = [] then []
      else (case mp markdown of
              Inr html \<Rightarrow> wrapCodeBlocks html
            | Inl e \<Rightarrow> escapeHtml markdown))"

definition processMessageContent :: "marked \<Rightarrow> string \<Rightarrow> bool \<Rightarrow> string" where
  "processMessageContent mp content isUser =
     (if isUser then replace_newlines (escapeHtml content)
      else renderMarkdown mp content)"

subsection \<open>ai-chat.js: the page state\<close>

text \<open>
  The readyState of the socket held in the variable \<open>websocket\<close>; \<open>None\<close> in the
  state stands for the variable being \<open>null\<close>.
\<close>

datatype ready_state = CONNECTING | OPEN | CLOSING | CLOSED

text \<open>The three outbound messages, as passed to \<open>websocket.send\<close>.\<close>

datatype command =
    ChatMessage string "int option"
  | LoadHistory int
  | NewConversation

datatype role = User | Assistant

text \<open>
  The argument given to \<open>formatTimestamp\<close> when a message element is built: the current
  time or a timestamp of the server. The label computed from it depends on the clock and is
  not modelled.
\<close>

datatype stamp = Now | At string

text \<open>
  The markup inside \<open>div.message-avatar\<close> as the template literal gives it: the inline
  icon of the assistant, or \<^verbatim>\<open><img src="t" alt="You">\<close> with the text \<open>t\<close> put between
  the quotes as it is. The template does not escape \<open>t\<close>: \<open>Img t\<close> records the spliced
  text, not the value of the \<open>src\<close> attribute that the parser makes of it (a double
  quote in \<open>t\<close> ends the attribute).
\<close>

datatype avatar = Icon | Img string

text \<open>
  A message element (\<open>div.message\<close>), by the markup the code supplies for it: its class,
  the avatar markup, and for its \<open>.message-text\<close> child the attribute
  \<open>data-raw-content\<close> (\<open>None\<close> while unset) and the markup put inside it, spliced into
  the template when the element is built or assigned to \<open>innerHTML\<close> by a chunk.
\<close>

record msg_el =
  el_role :: role
  avatar_html :: avatar
  raw_content :: "string option"
  text_html :: string
  el_stamp :: stamp

text \<open>
  The children of \<open>#chatMessages\<close>: a welcome block, or a message element given by its
  address in the store of elements.
\<close>

datatype node = Welcome | Msg nat

datatype toast_type = ToastInfo | ToastSuccess | ToastError

datatype timer_cb = HideStatus | Reconnect

record user =
  github_avatar_url :: "string option"

record conversation =
  conv_id :: int
  conv_title :: string
  conv_message_count :: int
  conv_updated_at :: string

record conv_item =
  item_id :: int
  item_title_html :: string
  item_message_count :: int
  item_updated_at :: string
  item_active :: bool

datatype sidebar = Items "conv_item list" | EmptyState | Updating

datatype api_call = DeleteConversation int | ListConversations

text \<open>
  The state. First the variables of the script; then the page (message elements live in a
  store addressed by numbers, so that \<open>currentAssistantMessage\<close> is a reference that
  stays valid when the element is detached from \<open>#chatMessages\<close>); then what the
  handlers handed to the platform: pending timers with their delay in milliseconds, frames
  accepted by the socket, REST requests issued, and the number of sockets constructed.
  Scroll positions, the textarea height, the animation timers of a toast and the
  decoration applied by the highlighter are layout and are not modelled.
\<close>

record state =
  websocket :: "ready_state option"
  currentConversationId :: "int option"
  currentUser :: "user option"
  isConnected :: bool
  currentAssistantMessage :: "nat option"
  chatMessages :: "node list"
  elements :: "nat \<Rightarrow> msg_el"
  next_element :: nat
  typing_hidden :: bool
  chatInput :: string
  sendBtn_disabled :: bool
  conversationsList :: sidebar
  statusText :: string
  status_hidden :: bool
  status_error :: bool
  status_connected :: bool
  toasts :: "(string \<times> toast_type) list"
  timers :: "(nat \<times> timer_cb) list"
  outbox :: "command list"
  api_requests :: "api_call list"
  sockets_constructed :: nat

text \<open>A possibly throwing step: the state reached, and the exception if one was thrown.\<close>

type_synonym outcome = "state \<times> exn option"

subsection \<open>Platform operations\<close>

text \<open>
  \<open>websocket.send(data)\<close>: a TypeError when the variable is null, an InvalidStateError
  while the socket is connecting, transmission when it is open, and silence when it is
  closing or closed.
\<close>

definition ws_send :: "command \<Rightarrow> state \<Rightarrow> outcome" where
  "ws_send c s =
     (case websocket s of
        None \<Rightarrow> (s, Some TypeError)
      | Some CONNECTING \<Rightarrow> (s, Some InvalidStateError)
      | Some OPEN \<Rightarrow> (s\<lparr>outbox := outbox s @ [c]\<rparr>, None)
      | Some CLOSING \<Rightarrow> (s, None)
      | Some CLOSED \<Rightarrow> (s, None))"

text \<open>\<open>String.prototype.trim\<close> on the code units below 256.\<close>

definition js_whitespace :: "char \<Rightarrow> bool" where
  "js_whitespace c \<longleftrightarrow> of_char c \<in> {9, 10, 11, 12, 13, 32, 160 :: nat}"

definition trim :: "string \<Rightarrow> string" where
  "trim t = rev (dropWhile js_whitespace (rev (dropWhile js_whitespace t)))"

text \<open>\<open>document.createElement\<close> followed by \<open>messagesContainer.appendChild\<close>.\<close>

definition appendChild_new :: "msg_el \<Rightarrow> state \<Rightarrow> state" where
  "appendChild_new el s =
     s\<lparr>chatMessages := chatMessages s @ [Msg (next_element s)],
       elements := (elements s)(next_element s := el),
       next_element := Suc (next_element s)\<rparr>"

subsection \<open>ai-chat.js: connection handling\<close>

definition showToast :: "string \<Rightarrow> toast_type \<Rightarrow> state \<Rightarrow> state" where
  "showToast message ty s = s\<lparr>toasts := toasts s @ [(message, ty)]\<rparr>"

text \<open>
  \<open>loadUserInfo\<close> after its request has been answered: the profile is stored, or, when the
  request failed, a toast is shown and \<open>currentUser\<close> stays as it was. The page goes on to
  connect in both cases. (The name and avatar in the page header are not modelled.)
\<close>

definition loadUserInfo_done :: "user option \<Rightarrow> state \<Rightarrow> state" where
  "loadUserInfo_done r s =
     (case r of
        Some u \<Rightarrow> s\<lparr>currentUser := Some u\<rparr>
      | None \<Rightarrow> showToast ''Failed to load user info'' ToastError s)"

definition showConnectionStatus :: "string \<Rightarrow> bool \<Rightarrow> state \<Rightarrow> state" where
  "showConnectionStatus message isError s =
     (let s1 = s\<lparr>statusText := message, status_hidden := False\<rparr> in
      if isError then s1\<lparr>status_error := True, status_connected := False\<rparr>
      else if message = ''Connected'' then s1\<lparr>status_connected := True, status_error := False\<rparr>
      else s1\<lparr>status_error := False, status_connected := False\<rparr>)"

text \<open>
  \<open>connectWebSocket\<close>; \<open>ctor_ok\<close> tells whether \<open>new WebSocket(wsUrl)\<close> returns or
  throws. A socket that was constructed starts out connecting.
\<close>

definition connectWebSocket :: "bool \<Rightarrow> state \<Rightarrow> state" where
  "connectWebSocket ctor_ok s =
     (let s1 = showConnectionStatus ''Connecting...'' False s in
      if ctor_ok
      then s1\<lparr>websocket := Some CONNECTING, sockets_constructed := Suc (sockets_constructed s1)\<rparr>
      else showToast ''Failed to connect to chat service'' ToastError
             (showConnectionStatus ''Connection failed'' True s1))"

definition handleWebSocketOpen :: "state \<Rightarrow> state" where
  "handleWebSocketOpen s =
     (let s1 = showConnectionStatus ''Connected'' False (s\<lparr>isConnected := True\<rparr>)
      in s1\<lparr>timers := timers s1 @ [(2000, HideStatus)]\<rparr>)"

definition handleWebSocketError :: "state \<Rightarrow> state" where
  "handleWebSocketError s =
     showToast ''Chat connection error'' ToastError
       (showConnectionStatus ''Connection error'' True (s\<lparr>isConnected := False\<rparr>))"

definition handleWebSocketClose :: "state \<Rightarrow> state" where
  "handleWebSocketClose s =
     (let s1 = showConnectionStatus ''Disconnected'' True (s\<lparr>isConnected := False\<rparr>)
      in s1\<lparr>timers := timers s1 @ [(3000, Reconnect)]\<rparr>)"

text \<open>The two callbacks given to \<open>setTimeout\<close> by the connection handlers.\<close>

fun run_timer :: "bool \<Rightarrow> timer_cb \<Rightarrow> state \<Rightarrow> state" where
  "run_timer ctor_ok HideStatus s = s\<lparr>status_hidden := True\<rparr>"
| "run_timer ctor_ok Reconnect s = (if \<not> isConnected s then connectWebSocket ctor_ok s else s)"

text \<open>
  The platform fires the pending timer at position \<open>i\<close>: a timeout fires once, so it leaves
  the pending list, and its callback runs.
\<close>

definition fire_timer :: "bool \<Rightarrow> nat \<Rightarrow> state \<Rightarrow> state" where
  "fire_timer ctor_ok i s =
     (if i < length (timers s)
      then run_timer ctor_ok (snd (timers s ! i))
             (s\<lparr>timers := take i (timers s) @ drop (Suc i) (timers s)\<rparr>)
      else s)"

subsection \<open>ai-chat.js: sending\<close>

definition handleInputChange :: "state \<Rightarrow> state" where
  "handleInputChange s = s\<lparr>sendBtn_disabled := (trim (chatInput s) = [])\<rparr>"

definition sendMessage :: "state \<Rightarrow> outcome" where
  "sendMessage s =
     (let message = trim (chatInput s) in
      if message = [] \<or> \<not> isConnected s then (s, None)
      else
        (let s1 = handleInputChange (s\<lparr>chatInput := []\<rparr>);
             s2 = s1\<lparr>chatMessages := remove1 Welcome (chatMessages s1)\<rparr>
         in ws_send (ChatMessage message (currentConversationId s2)) s2))"

subsection \<open>ai-chat.js: displaying messages\<close>

definition toggleTypingIndicator :: "bool \<Rightarrow> state \<Rightarrow> state" where
  "toggleTypingIndicator show s = s\<lparr>typing_hidden := (\<not> show)\<rparr>"

definition avatar_of :: "user \<Rightarrow> string" where
  "avatar_of u =
     (case github_avatar_url u of
        None \<Rightarrow> ''https://via.placeholder.com/36''
      | Some a \<Rightarrow> if a = [] then ''https://via.placeholder.com/36'' else a)"

text \<open>
  \<open>displayUserMessage\<close> reads \<open>currentUser.github_avatar_url\<close> while it builds the markup:
  with \<open>currentUser\<close> still null this throws before anything is appended.
\<close>

definition displayUserMessage :: "marked \<Rightarrow> string \<Rightarrow> string \<Rightarrow> state \<Rightarrow> outcome" where
  "displayUserMessage mp message timestamp s =
     (case currentUser s of
        None \<Rightarrow> (s, Some TypeError)
      | Some u \<Rightarrow>
          (appendChild_new
             \<lparr>el_role = User, avatar_html = Img (avatar_of u), raw_content = None,
              text_html = processMessageContent mp message True, el_stamp = At timestamp\<rparr> s,
           None))"

definition append_text :: "marked \<Rightarrow> nat \<Rightarrow> string \<Rightarrow> state \<Rightarrow> state" where
  "append_text mp m chunk s =
     (let el = elements s m;
          currentText = (case raw_content el of None \<Rightarrow> [] | Some t \<Rightarrow> t);
          newText = currentText @ chunk
      in s\<lparr>elements := (elements s)
             (m := el\<lparr>raw_content := Some newText,
                      text_html := processMessageContent mp newText False\<rparr>)\<rparr>)"

definition appendAssistantMessageChunk :: "marked \<Rightarrow> string \<Rightarrow> state \<Rightarrow> state" where
  "appendAssistantMessageChunk mp chunk s =
     (case currentAssistantMessage s of
        None \<Rightarrow>
          append_text mp (next_element s) chunk
            ((appendChild_new
                \<lparr>el_role = Assistant, avatar_html = Icon, raw_content = None,
                 text_html = [], el_stamp = Now\<rparr> s)
             \<lparr>currentAssistantMessage := Some (next_element s)\<rparr>)
      | Some m \<Rightarrow> append_text mp m chunk s)"

definition completeAssistantMessage :: "state \<Rightarrow> state" where
  "completeAssistantMessage s = toggleTypingIndicator False (s\<lparr>currentAssistantMessage := None\<rparr>)"

record history_msg =
  msg_role :: string
  msg_content :: string
  msg_timestamp :: string

definition display_one :: "marked \<Rightarrow> history_msg \<Rightarrow> state \<Rightarrow> outcome" where
  "display_one mp msg s =
     (if msg_role msg = ''user'' then displayUserMessage mp (msg_content msg) (msg_timestamp msg) s
      else
        (appendChild_new
           \<lparr>el_role = Assistant, avatar_html = Icon, raw_content = None,
            text_html = processMessageContent mp (msg_content msg) False,
            el_stamp = At (msg_timestamp msg)\<rparr> s,
         None))"

text \<open>\<open>messages.forEach\<close>: an exception thrown by the callback ends the loop.\<close>

fun forEach_msg :: "marked \<Rightarrow> history_msg list \<Rightarrow> state \<Rightarrow> outcome" where
  "forEach_msg mp [] s = (s, None)"
| "forEach_msg mp (msg # msgs) s =
     (case display_one mp msg s of
        (s', None) \<Rightarrow> forEach_msg mp msgs s'
      | (s', Some e) \<Rightarrow> (s', Some e))"

definition displayConversationHistory :: "marked \<Rightarrow> history_msg list \<Rightarrow> state \<Rightarrow> outcome" where
  "displayConversationHistory mp messages s = forEach_msg mp messages (s\<lparr>chatMessages := []\<rparr>)"

subsection \<open>ai-chat.js: inbound frames\<close>

text \<open>
  What \<open>JSON.parse(event.data)\<close> gives the handler. \<open>ParseError\<close>: the text is not JSON
  and the call throws. \<open>WsNull\<close>: the value \<open>null\<close>, on which reading \<open>data.type\<close>
  throws. \<open>WsObject ty f\<close>: any other value; \<open>ty\<close> is its property \<open>type\<close> when that is a
  string (the \<open>switch\<close> compares with \<open>===\<close> against string literals, so nothing else
  can match a case), and \<open>f\<close> holds the properties the cases read, with the types the
  server gives them.
\<close>

record ws_fields =
  f_message :: string
  f_timestamp :: string
  f_is_typing :: bool
  f_content :: string
  f_messages :: "history_msg list"
  f_conversation_id :: "int option"

datatype ws_data = WsNull | WsObject "string option" ws_fields

datatype parse_result = ParseError | Value ws_data

definition dispatch :: "marked \<Rightarrow> string option \<Rightarrow> ws_fields \<Rightarrow> state \<Rightarrow> outcome" where
  "dispatch mp ty f s =
     (if ty = Some ''connection'' then (s, None)
      else if ty = Some ''user_message'' then displayUserMessage mp (f_message f) (f_timestamp f) s
      else if ty = Some ''typing'' then (toggleTypingIndicator (f_is_typing f) s, None)
      else if ty = Some ''assistant_message_chunk''
        then (appendAssistantMessageChunk mp (f_content f) s, None)
      else if ty = Some ''assistant_message_complete'' then (completeAssistantMessage s, None)
      else if ty = Some ''history'' then displayConversationHistory mp (f_messages f) s
      else if ty = Some ''new_conversation''
        then (s\<lparr>currentConversationId := f_conversation_id f\<rparr>, None)
      else if ty = Some ''error''
        then (toggleTypingIndicator False (showToast (f_message f) ToastError s), None)
      else (s, None))"

text \<open>The body of the \<open>try\<close> block of \<open>handleWebSocketMessage\<close>.\<close>

definition message_body :: "marked \<Rightarrow> parse_result \<Rightarrow> state \<Rightarrow> outcome" where
  "message_body mp r s =
     (case r of
        ParseError \<Rightarrow> (s, Some SyntaxError)
      | Value WsNull \<Rightarrow> (s, Some TypeError)
      | Value (WsObject ty f) \<Rightarrow> dispatch mp ty f s)"

text \<open>\<open>catch (error) { console.error(...) }\<close>: the exception ends here.\<close>

definition catch_log :: "outcome \<Rightarrow> outcome" where
  "catch_log r = (fst r, None)"

definition handleWebSocketMessage :: "marked \<Rightarrow> parse_result \<Rightarrow> state \<Rightarrow> outcome" where
  "handleWebSocketMessage mp r s = catch_log (message_body mp r s)"

text \<open>Frames handled one after the other, in arrival order.\<close>

fun handle_frames :: "marked \<Rightarrow> parse_result list \<Rightarrow> state \<Rightarrow> state" where
  "handle_frames mp [] s = s"
| "handle_frames mp (r # rs) s = handle_frames mp rs (fst (handleWebSocketMessage mp r s))"

subsection \<open>ai-chat.js: conversations\<close>

definition deactivate_all :: "sidebar \<Rightarrow> sidebar" where
  "deactivate_all sb =
     (case sb of Items its \<Rightarrow> Items (map (\<lambda>it. it\<lparr>item_active := False\<rparr>) its) | _ \<Rightarrow> sb)"

text \<open>\<open>document.querySelector('[data-id="..."]')?.classList.add('active')\<close>: the first match.\<close>

fun activate_first :: "int \<Rightarrow> conv_item list \<Rightarrow> conv_item list" where
  "activate_first i [] = []"
| "activate_first i (it # its) =
     (if item_id it = i then it\<lparr>item_active := True\<rparr> # its else it # activate_first i its)"

definition activate :: "int \<Rightarrow> sidebar \<Rightarrow> sidebar" where
  "activate i sb = (case sb of Items its \<Rightarrow> Items (activate_first i its) | _ \<Rightarrow> sb)"

definition displayConversations :: "conversation list \<Rightarrow> state \<Rightarrow> state" where
  "displayConversations conversations s =
     (if conversations = [] then s\<lparr>conversationsList := EmptyState\<rparr>
      else s\<lparr>conversationsList := Items (map (\<lambda>conv.
              \<lparr>item_id = conv_id conv, item_title_html = escapeHtml (conv_title conv),
               item_message_count = conv_message_count conv,
               item_updated_at = conv_updated_at conv,
               item_active = (Some (conv_id conv) = currentConversationId s)\<rparr>) conversations)\<rparr>)"

text \<open>
  \<open>loadConversations\<close> issues the list request and is suspended; \<open>loadConversations_done\<close>
  is its continuation, given the list or \<open>None\<close> when the request failed.
\<close>

definition loadConversations :: "state \<Rightarrow> state" where
  "loadConversations s = s\<lparr>api_requests := api_requests s @ [ListConversations]\<rparr>"

definition loadConversations_done :: "conversation list option \<Rightarrow> state \<Rightarrow> state" where
  "loadConversations_done r s =
     (case r of
        Some conversations \<Rightarrow> displayConversations conversations s
      | None \<Rightarrow> s\<lparr>conversationsList := EmptyState\<rparr>)"

definition loadConversation :: "int \<Rightarrow> state \<Rightarrow> outcome" where
  "loadConversation conversationId s =
     (let s1 = s\<lparr>currentConversationId := Some conversationId\<rparr>;
          s2 = s1\<lparr>conversationsList := activate conversationId (deactivate_all (conversationsList s1))\<rparr>
      in case ws_send (LoadHistory conversationId) s2 of
           (s3, None) \<Rightarrow> (s3, None)
         | (s3, Some e) \<Rightarrow> (showToast ''Failed to load conversation'' ToastError s3, None))"

definition startNewChat :: "state \<Rightarrow> outcome" where
  "startNewChat s =
     (let s1 = s\<lparr>currentConversationId := None, currentAssistantMessage := None\<rparr>;
          s2 = s1\<lparr>chatMessages := [Welcome]\<rparr>;
          s3 = s2\<lparr>conversationsList := deactivate_all (conversationsList s2)\<rparr>
      in ws_send NewConversation s3)"

text \<open>
  \<open>clearCurrentChat\<close> is an async function with two \<open>await\<close>s, at which other handlers
  may run. It is modelled by its three synchronous segments: up to the delete request, from
  the answer to the delete request up to the list request, and from the answer to the list
  request to the end. A segment returns the outcome and whether the function is suspended
  on a request. \<open>confirmed\<close> is the answer to the \<open>confirm\<close> dialogue; \<open>!currentConversationId\<close>
  holds for \<open>null\<close> and for the number 0.
\<close>

datatype progress = Returned | Awaiting api_call

definition clearCurrentChat :: "bool \<Rightarrow> state \<Rightarrow> outcome \<times> progress" where
  "clearCurrentChat confirmed s =
     (case currentConversationId s of
        None \<Rightarrow> (startNewChat s, Returned)
      | Some i \<Rightarrow>
          if i = 0 then (startNewChat s, Returned)
          else if \<not> confirmed then ((s, None), Returned)
          else ((s\<lparr>api_requests := api_requests s @ [DeleteConversation i]\<rparr>, None),
                Awaiting (DeleteConversation i)))"

definition clearCurrentChat_deleted :: "bool \<Rightarrow> state \<Rightarrow> outcome \<times> progress" where
  "clearCurrentChat_deleted ok s =
     (if \<not> ok then ((showToast ''Failed to delete conversation'' ToastError s, None), Returned)
      else
        (let s1 = s\<lparr>currentConversationId := None, currentAssistantMessage := None\<rparr>;
             s2 = s1\<lparr>conversationsList := Updating\<rparr>
         in ((loadConversations s2, None), Awaiting ListConversations)))"

definition clearCurrentChat_listed :: "conversation list option \<Rightarrow> state \<Rightarrow> outcome \<times> progress" where
  "clearCurrentChat_listed r s =
     (case startNewChat (loadConversations_done r s) of
        (s1, None) \<Rightarrow> ((showToast ''Conversation deleted permanently'' ToastSuccess s1, None), Returned)
      | (s1, Some e) \<Rightarrow> ((showToast ''Failed to delete conversation'' ToastError s1, None), Returned))"

subsection \<open>Reading rendered HTML back\<close>

text \<open>
  The HTML parser of the browser, on the markup that \<open>processMessageContent\<close> produces for
  a user message: text, the four character references and \<open><br>\<close> tags. The parser first
  turns CR LF and a lone CR into LF; in the body a NUL character is dropped; a reference is
  decoded; the tag becomes a line-break element. Any other markup is outside this model
  (\<open>None\<close>).
\<close>

datatype dom_node = Ch char | Br

fun normalize_newlines :: "string \<Rightarrow> string" where
  "normalize_newlines [] = []"
| "normalize_newlines [c] = (if c = CHR 0x0D then [CHR 0x0A] else [c])"
| "normalize_newlines (c # d # cs) =
     (if c = CHR 0x0D
      then (if d = CHR 0x0A then CHR 0x0A # normalize_newlines cs
            else CHR 0x0A # normalize_newlines (d # cs))
      else c # normalize_newlines (d # cs))"

definition char_ref :: "string \<Rightarrow> (char \<times> string) option" where
  "char_ref s =
     (case strip_prefix ''amp;'' s of Some r \<Rightarrow> Some (CHR ''&'', r) | None \<Rightarrow>
      (case strip_prefix ''nbsp;'' s of Some r \<Rightarrow> Some (CHR 0xA0, r) | None \<Rightarrow>
       (case strip_prefix ''lt;'' s of Some r \<Rightarrow> Some (CHR ''<'', r) | None \<Rightarrow>
        (case strip_prefix ''gt;'' s of Some r \<Rightarrow> Some (CHR ''>'', r) | None \<Rightarrow> None))))"

lemma char_ref_length: "char_ref s = Some (c, r) \<Longrightarrow> length r < length s"
  by (auto simp: char_ref_def split: option.splits dest!: strip_prefix_length)

function tokenize :: "string \<Rightarrow> dom_node list option" where
  "tokenize [] = Some []"
| "tokenize (c # cs) =
     (if c = CHR ''<'' then
        (case strip_prefix ''br>'' cs of
           None \<Rightarrow> None
         | Some r \<Rightarrow> map_option ((#) Br) (tokenize r))
      else if c = CHR ''&'' then
        (case char_ref cs of
           None \<Rightarrow> None
         | Some (d, r) \<Rightarrow> map_option ((#) (Ch d)) (tokenize r))
      else if c = CHR 0x00 then tokenize cs
      else map_option ((#) (Ch c)) (tokenize cs))"
  by pat_completeness auto
termination
  by (relation "measure length") (auto dest!: strip_prefix_length char_ref_length)

definition parse_fragment :: "string \<Rightarrow> dom_node list option" where
  "parse_fragment h = tokenize (normalize_newlines h)"

text \<open>\<open>textContent\<close>: the text nodes, in order; a line-break element has no text.\<close>

fun textContent :: "dom_node list \<Rightarrow> string" where
  "textContent [] = []"
| "textContent (Ch c # ns) = c # textContent ns"
| "textContent (Br # ns) = textContent ns"

text \<open>The text as laid out: a line-break element ends the line.\<close>

fun text_with_breaks :: "dom_node list \<Rightarrow> string" where
  "text_with_breaks [] = []"
| "text_with_breaks (Ch c # ns) = c # text_with_breaks ns"
| "text_with_breaks (Br # ns) = CHR 0x0A # text_with_breaks ns"

subsection \<open>Notions used by the properties\<close>

text \<open>\<open>messageText.dataset.rawContent || ''\<close>: the accumulated text of an element.\<close>

definition raw_text :: "msg_el \<Rightarrow> string" where
  "raw_text el = (case raw_content el of None \<Rightarrow> [] | Some t \<Rightarrow> t)"

text \<open>Frames with one of the type tags the \<open>switch\<close> knows.\<close>

definition chunk_frame :: "ws_fields \<Rightarrow> parse_result" where
  "chunk_frame f = Value (WsObject (Some ''assistant_message_chunk'') f)"

definition complete_frame :: "ws_fields \<Rightarrow> parse_result" where
  "complete_frame f = Value (WsObject (Some ''assistant_message_complete'') f)"

definition history_frame :: "ws_fields \<Rightarrow> parse_result" where
  "history_frame f = Value (WsObject (Some ''history'') f)"

definition error_frame :: "ws_fields \<Rightarrow> parse_result" where
  "error_frame f = Value (WsObject (Some ''error'') f)"

definition is_complete :: "parse_result \<Rightarrow> bool" where
  "is_complete r =
     (case r of
        Value (WsObject ty f) \<Rightarrow> ty = Some ''assistant_message_complete''
      | _ \<Rightarrow> False)"

text \<open>The \<open>case\<close> labels of the \<open>switch\<close> in \<open>handleWebSocketMessage\<close>.\<close>

definition recognized_tags :: "string set" where
  "recognized_tags =
     {''connection'', ''user_message'', ''typing'', ''assistant_message_chunk'',
      ''assistant_message_complete'', ''history'', ''new_conversation'', ''error''}"

text \<open>
  What the chat area displays: its children in order, each message with the element it
  refers to (\<open>None\<close> for a welcome block).
\<close>

definition visible :: "state \<Rightarrow> msg_el option list" where
  "visible s =
     map (\<lambda>n. case n of Welcome \<Rightarrow> None | Msg i \<Rightarrow> Some (elements s i)) (chatMessages s)"

text \<open>The element that displays one message of a history payload, for the user \<open>u\<close>.\<close>

definition shown :: "marked \<Rightarrow> user \<Rightarrow> history_msg \<Rightarrow> msg_el" where
  "shown mp u msg =
     (if msg_role msg = ''user''
      then \<lparr>el_role = User, avatar_html = Img (avatar_of u), raw_content = None,
            text_html = replace_newlines (escapeHtml (msg_content msg)),
            el_stamp = At (msg_timestamp msg)\<rparr>
      else \<lparr>el_role = Assistant, avatar_html = Icon, raw_content = None,
            text_html = renderMarkdown mp (msg_content msg),
            el_stamp = At (msg_timestamp msg)\<rparr>)"

text \<open>Every displayed message refers to an element that has been created.\<close>

definition ids_allocated :: "state \<Rightarrow> bool" where
  "ids_allocated s =
     list_all (\<lambda>n. case n of Welcome \<Rightarrow> True | Msg i \<Rightarrow> i < next_element s) (chatMessages s)"

text \<open>
  Everything displayed was created at or after address \<open>b\<close>: no welcome block, and no
  element that existed before.
\<close>

definition created_since :: "nat \<Rightarrow> state \<Rightarrow> bool" where
  "created_since b s =
     (b \<le> next_element s
      \<and> list_all (\<lambda>n. case n of Welcome \<Rightarrow> False | Msg i \<Rightarrow> b \<le> i) (chatMessages s))"

text \<open>
  The sidebar after a refresh that is followed by \<open>startNewChat\<close>: one item for each
  conversation of the answer, in its order, none of them active; the empty notice when the
  answer is empty or the request failed.
\<close>

definition refreshed :: "conversation list option \<Rightarrow> sidebar" where
  "refreshed r =
     (case r of
        None \<Rightarrow> EmptyState
      | Some conversations \<Rightarrow>
          if conversations = [] then EmptyState
          else Items (map (\<lambda>conv.
                 \<lparr>item_id = conv_id conv, item_title_html = escapeHtml (conv_title conv),
                  item_message_count = conv_message_count conv,
                  item_updated_at = conv_updated_at conv, item_active = False\<rparr>) conversations))"

text \<open>
  The nodes that one code unit of a user message becomes once its markup is parsed: a line
  feed is a line-break element, a NUL disappears, a carriage return is read as a line feed.
\<close>

definition node_of :: "char \<Rightarrow> dom_node list" where
  "node_of c =
     (if c = CHR 0x0A then [Br]
      else if c = CHR 0x00 then []
      else if c = CHR 0x0D then [Ch (CHR 0x0A)]
      else [Ch c])"

definition cr_to_lf :: "char \<Rightarrow> char" where
  "cr_to_lf c = (if c = CHR 0x0D then CHR 0x0A else c)"

definition enc :: "char \<Rightarrow> string" where
  "enc c = replace_newlines (escape_unit c)"

subsection \<open>Sample inputs\<close>

text \<open>
  The page when the script has just been loaded: the five variables as their declarations
  initialise them, the welcome block in the chat area, nothing scheduled or sent.
\<close>

definition fresh_page :: state where
  "fresh_page =
     \<lparr>websocket = None, currentConversationId = None, currentUser = None,
      isConnected = False, currentAssistantMessage = None,
      chatMessages = [Welcome],
      elements = (\<lambda>n. \<lparr>el_role = Assistant, avatar_html = Icon, raw_content = None,
                         text_html = [], el_stamp = Now\<rparr>),
      next_element = 0, typing_hidden = True, chatInput = [], sendBtn_disabled = True,
      conversationsList = EmptyState, statusText = [], status_hidden = True,
      status_error = False, status_connected = False, toasts = [], timers = [],
      outbox = [], api_requests = [], sockets_constructed = 0\<rparr>"

text \<open>The page with the user loaded and the first socket open.\<close>

definition connected_page :: state where
  "connected_page =
     fresh_page\<lparr>websocket := Some OPEN, isConnected := True, sockets_constructed := 1,
                currentUser := Some \<lparr>github_avatar_url = None\<rparr>\<rparr>"

text \<open>The connected page in conversation 7, with one assistant message being streamed.\<close>

definition streaming_page :: state where
  "streaming_page =
     connected_page
       \<lparr>currentConversationId := Some 7, currentAssistantMessage := Some 0,
        chatMessages := [Msg 0],
        elements := (elements connected_page)
          (0 := \<lparr>el_role = Assistant, avatar_html = Icon, raw_content = Some ''Hel'',
                 text_html = ''<p>Hel</p>'', el_stamp = Now\<rparr>),
        next_element := 1, typing_hidden := False\<rparr>"

text \<open>A stand-in for the markdown library that wraps its input into one paragraph.\<close>

definition paragraph_marked :: marked where
  "paragraph_marked md = Inr (''<p>'' @ md @ ''</p>'')"

definition no_fields :: ws_fields where
  "no_fields =
     \<lparr>f_message = [], f_timestamp = [], f_is_typing = False, f_content = [],
      f_messages = [], f_conversation_id = None\<rparr>"

definition with_content :: "string \<Rightarrow> ws_fields" where
  "with_content c = no_fields\<lparr>f_content := c\<rparr>"

definition with_messages :: "history_msg list \<Rightarrow> ws_fields" where
  "with_messages ms = no_fields\<lparr>f_messages := ms\<rparr>"

text \<open>The page on which the profile request has failed.\<close>

definition profile_failed_page :: state where
  "profile_failed_page = loadUserInfo_done None fresh_page"

text \<open>
  The connected page with a message typed, at the moment the closing handshake of the
  socket has started and its close event has not been dispatched yet.
\<close>

definition closing_page :: state where
  "closing_page = connected_page\<lparr>websocket := Some CLOSING, chatInput := ''hi''\<rparr>"

section \<open>Properties\<close>

subsection \<open>Inbound frames that are not events\<close>

lemma handler_never_throws: "snd (handleWebSocketMessage mp r s) = None"
  by (simp add: handleWebSocketMessage_def catch_log_def)

text \<open>
  C6. A frame that is not JSON, that is the JSON value \<open>null\<close>, or whose type tag is none
  of the tags the handler knows, changes nothing: the handler returns the state it was
  given (conversation id, streaming message, typing indicator, message list and socket
  included), and it returns normally, without an exception.
\<close>

theorem unrecognized_frame_ignored:
  assumes "r = ParseError \<or> r = Value WsNull
           \<or> (\<exists>ty f. r = Value (WsObject ty f) \<and> ty \<notin> Some ` recognized_tags)"
  shows "handleWebSocketMessage mp r s = (s, None)"
  using assms
  by (auto simp: handleWebSocketMessage_def catch_log_def message_body_def dispatch_def
      recognized_tags_def)

theorem unrecognized_frame_ignored_witness:
  "Some ''unknown_tag'' \<notin> Some ` recognized_tags
   \<and> handleWebSocketMessage paragraph_marked
         (Value (WsObject (Some ''unknown_tag'') no_fields)) streaming_page
       = (streaming_page, None)
   \<and> handleWebSocketMessage paragraph_marked ParseError streaming_page = (streaming_page, None)"
proof -
  have h: "Some ''unknown_tag'' \<notin> Some ` recognized_tags"
    by (simp add: recognized_tags_def)
  show ?thesis
    using h
      unrecognized_frame_ignored
        [of "Value (WsObject (Some ''unknown_tag'') no_fields)" paragraph_marked streaming_page]
      unrecognized_frame_ignored [of ParseError paragraph_marked streaming_page]
    by simp
qed

subsection \<open>The error event\<close>

text \<open>
  C8. An \<open>error\<close> event, in any state, puts its message into a toast and hides the typing
  indicator; nothing else changes. In particular the conversation id, the message list,
  the streaming slot and the text streamed so far stay as they were.
\<close>

theorem error_event_effect:
  "handleWebSocketMessage mp (error_frame f) s =
     (s\<lparr>toasts := toasts s @ [(f_message f, ToastError)], typing_hidden := True\<rparr>, None)
   \<and> typing_hidden (fst (handleWebSocketMessage mp (error_frame f) s))
   \<and> currentConversationId (fst (handleWebSocketMessage mp (error_frame f) s))
       = currentConversationId s
   \<and> chatMessages (fst (handleWebSocketMessage mp (error_frame f) s)) = chatMessages s
   \<and> elements (fst (handleWebSocketMessage mp (error_frame f) s)) = elements s
   \<and> currentAssistantMessage (fst (handleWebSocketMessage mp (error_frame f) s))
       = currentAssistantMessage s"
  by (simp add: error_frame_def handleWebSocketMessage_def catch_log_def message_body_def
      dispatch_def toggleTypingIndicator_def showToast_def)

theorem error_event_effect_witness:
  "\<not> typing_hidden streaming_page
   \<and> typing_hidden
       (fst (handleWebSocketMessage paragraph_marked
               (error_frame (no_fields\<lparr>f_message := ''rate limited''\<rparr>)) streaming_page))
   \<and> toasts
       (fst (handleWebSocketMessage paragraph_marked
               (error_frame (no_fields\<lparr>f_message := ''rate limited''\<rparr>)) streaming_page))
       = [(''rate limited'', ToastError)]
   \<and> raw_content
       (elements
          (fst (handleWebSocketMessage paragraph_marked
                  (error_frame (no_fields\<lparr>f_message := ''rate limited''\<rparr>)) streaming_page)) 0)
       = Some ''Hel''
   \<and> currentAssistantMessage
       (fst (handleWebSocketMessage paragraph_marked
               (error_frame (no_fields\<lparr>f_message := ''rate limited''\<rparr>)) streaming_page))
       = Some 0"
  using error_event_effect
    [of paragraph_marked "no_fields\<lparr>f_message := ''rate limited''\<rparr>" streaming_page]
  by (simp add: streaming_page_def connected_page_def fresh_page_def no_fields_def)

subsection \<open>Sending a message\<close>

text \<open>
  C9, as the claim states it, fails. On the connected page the closing handshake of the
  socket has started, so the socket is no longer open, while the flag \<open>isConnected\<close> is
  still set because the close event has not run. With the message \<open>hi\<close> typed,
  \<open>sendMessage\<close> passes its guard, clears the input, disables the button and removes the
  welcome block, and no command is sent. Read with the flag, both conditions hold and
  nothing is emitted; read with the socket, the connection is not open and local state is
  mutated.
\<close>

theorem stale_flag_counterexample:
  "isConnected closing_page
   \<and> trim (chatInput closing_page) = ''hi''
   \<and> websocket closing_page = Some CLOSING
   \<and> sendMessage closing_page
       = (closing_page\<lparr>chatInput := [], sendBtn_disabled := True, chatMessages := []\<rparr>, None)
   \<and> outbox (fst (sendMessage closing_page)) = []"
  by (simp add: closing_page_def connected_page_def fresh_page_def sendMessage_def Let_def
      handleInputChange_def ws_send_def trim_def js_whitespace_def)

text \<open>
  C9, amended. \<open>sendMessage\<close> is gated on the trimmed input and on the flag
  \<open>isConnected\<close>. When the trimmed input is empty or the flag is clear, it returns the
  state unchanged: no command is sent and nothing is mutated. When the trimmed input is not
  empty, the flag is set and the socket is in state OPEN, exactly one \<open>chat_message\<close>
  command with the trimmed text and \<open>currentConversationId\<close> is sent; locally the input
  is cleared, the send button disabled and the welcome block removed. In every state at
  most that one command is sent, and there is no local echo: no element is written, and the
  chat area is as before or has lost its welcome block.
\<close>

theorem sendMessage_gate:
  "(trim (chatInput s) = [] \<or> \<not> isConnected s \<longrightarrow> sendMessage s = (s, None))
   \<and> (trim (chatInput s) \<noteq> [] \<and> isConnected s \<and> websocket s = Some OPEN \<longrightarrow>
        sendMessage s =
          (s\<lparr>chatInput := [], sendBtn_disabled := True,
             chatMessages := remove1 Welcome (chatMessages s),
             outbox := outbox s @ [ChatMessage (trim (chatInput s)) (currentConversationId s)]\<rparr>,
           None))
   \<and> (outbox (fst (sendMessage s)) = outbox s
        \<or> outbox (fst (sendMessage s))
            = outbox s @ [ChatMessage (trim (chatInput s)) (currentConversationId s)])
   \<and> elements (fst (sendMessage s)) = elements s
   \<and> (chatMessages (fst (sendMessage s)) = chatMessages s
        \<or> chatMessages (fst (sendMessage s)) = remove1 Welcome (chatMessages s))"
  by (auto simp: sendMessage_def Let_def handleInputChange_def ws_send_def trim_def
      split: option.splits ready_state.splits)

theorem sendMessage_gate_witness:
  "trim (chatInput (connected_page\<lparr>chatInput := ''   ''\<rparr>)) = []
   \<and> sendMessage (connected_page\<lparr>chatInput := ''   ''\<rparr>)
       = (connected_page\<lparr>chatInput := ''   ''\<rparr>, None)
   \<and> \<not> isConnected (fresh_page\<lparr>chatInput := ''hi''\<rparr>)
   \<and> sendMessage (fresh_page\<lparr>chatInput := ''hi''\<rparr>) = (fresh_page\<lparr>chatInput := ''hi''\<rparr>, None)
   \<and> trim (chatInput (streaming_page\<lparr>chatInput := '' hi there ''\<rparr>)) = ''hi there''
   \<and> isConnected (streaming_page\<lparr>chatInput := '' hi there ''\<rparr>)
   \<and> websocket (streaming_page\<lparr>chatInput := '' hi there ''\<rparr>) = Some OPEN
   \<and> outbox (fst (sendMessage (streaming_page\<lparr>chatInput := '' hi there ''\<rparr>)))
       = [ChatMessage ''hi there'' (Some 7)]
   \<and> chatMessages (fst (sendMessage (streaming_page\<lparr>chatInput := '' hi there ''\<rparr>))) = [Msg 0]"
proof -
  have t1: "trim ''   '' = []" and t2: "trim '' hi there '' = ''hi there''"
    by (simp_all add: trim_def js_whitespace_def)
  show ?thesis
    using t1 t2
      sendMessage_gate [of "connected_page\<lparr>chatInput := ''   ''\<rparr>"]
      sendMessage_gate [of "fresh_page\<lparr>chatInput := ''hi''\<rparr>"]
      sendMessage_gate [of "streaming_page\<lparr>chatInput := '' hi there ''\<rparr>"]
    by (simp add: streaming_page_def connected_page_def fresh_page_def)
qed

subsection \<open>Reconnecting after a close\<close>

lemma connect_keeps_timers: "timers (connectWebSocket ok s) = timers s"
  by (simp add: connectWebSocket_def showConnectionStatus_def showToast_def Let_def)

lemma connect_keeps_flag: "isConnected (connectWebSocket ok s) = isConnected s"
  by (simp add: connectWebSocket_def showConnectionStatus_def showToast_def Let_def)

text \<open>
  C2, as the claim states it, fails. The page is connected; the socket closes; the page
  connects again by hand while the timer is pending; the timer fires before the new socket
  has opened. The call by hand leaves the timer pending, and the timer constructs a second
  socket: three sockets in all, two of them since the close.
\<close>

theorem manual_reconnect_counterexample:
  "timers (handleWebSocketClose connected_page) = [(3000, Reconnect)]
   \<and> timers (connectWebSocket True (handleWebSocketClose connected_page)) = [(3000, Reconnect)]
   \<and> sockets_constructed (connectWebSocket True (handleWebSocketClose connected_page)) = 2
   \<and> sockets_constructed
       (fire_timer True 0 (connectWebSocket True (handleWebSocketClose connected_page))) = 3"
  by (simp add: connected_page_def fresh_page_def fire_timer_def connectWebSocket_def
      handleWebSocketClose_def showConnectionStatus_def Let_def)

text \<open>
  C2, amended. A transport close clears the connection flag and schedules exactly one
  timer, with the fixed delay of 3000 milliseconds (a transport error alone schedules
  none). When that timer fires it leaves the
  pending list, and it connects exactly when the flag is still clear: fired right after
  the close it calls \<open>connectWebSocket\<close> once. Nothing cancels it: a call of
  \<open>connectWebSocket\<close> in between leaves the pending timers as they are. The attempt is
  suppressed when a socket has opened in between (\<open>handleWebSocketOpen\<close> has set the
  flag): the timer then changes nothing but its own removal.
\<close>

theorem reconnect_after_close:
  "timers (handleWebSocketClose s) = timers s @ [(3000, Reconnect)]
   \<and> \<not> isConnected (handleWebSocketClose s)
   \<and> fire_timer ok (length (timers s)) (handleWebSocketClose s) =
       connectWebSocket ok ((handleWebSocketClose s)\<lparr>timers := timers s\<rparr>)
   \<and> timers (handleWebSocketError s) = timers s
   \<and> timers (connectWebSocket ok' (handleWebSocketClose s)) = timers (handleWebSocketClose s)
   \<and> isConnected (connectWebSocket ok' (handleWebSocketClose s)) = False
   \<and> fire_timer ok (length (timers s))
        (handleWebSocketOpen (connectWebSocket ok' (handleWebSocketClose s))) =
      (handleWebSocketOpen (connectWebSocket ok' (handleWebSocketClose s)))
        \<lparr>timers := timers s @ [(2000, HideStatus)]\<rparr>"
  by (simp add: fire_timer_def connectWebSocket_def handleWebSocketClose_def
      handleWebSocketOpen_def handleWebSocketError_def showToast_def showConnectionStatus_def
      Let_def nth_append)

theorem reconnect_after_close_witness:
  "timers (handleWebSocketClose connected_page) = [(3000, Reconnect)]
   \<and> sockets_constructed (fire_timer True 0 (handleWebSocketClose connected_page)) = 2
   \<and> timers (fire_timer True 0 (handleWebSocketClose connected_page)) = []
   \<and> sockets_constructed
       (fire_timer True 0
          (handleWebSocketOpen (connectWebSocket True (handleWebSocketClose connected_page)))) = 2
   \<and> timers
       (fire_timer True 0
          (handleWebSocketOpen (connectWebSocket True (handleWebSocketClose connected_page))))
       = [(2000, HideStatus)]"
proof -
  have t: "timers connected_page = []"
    by (simp add: connected_page_def fresh_page_def)
  have n: "sockets_constructed connected_page = 1"
    by (simp add: connected_page_def fresh_page_def)
  show ?thesis
    using reconnect_after_close [of connected_page True True] t n
    by (simp add: connectWebSocket_def handleWebSocketClose_def handleWebSocketOpen_def
        showConnectionStatus_def Let_def)
qed

subsection \<open>Deleting the current conversation\<close>

lemma done_shape:
  "\<exists>sb. loadConversations_done r s = s\<lparr>conversationsList := sb\<rparr>
        \<and> deactivate_all sb = refreshed r"
  by (auto simp: deactivate_all_def loadConversations_done_def displayConversations_def
      refreshed_def split: option.splits)

text \<open>
  C4. With a current conversation and the dialogue confirmed, the first segment of
  \<open>clearCurrentChat\<close> only issues the delete request: the state is otherwise the one it
  was given. When the request fails, the continuation adds the error toast and changes
  nothing else, so the conversation id, the streaming slot and the message list are as
  before. When it succeeds, the continuation clears the id and the streaming slot, puts the
  sidebar into its updating state and issues the list request, with the chat area still
  untouched. The last segment, run when the list request has been answered, puts the
  refreshed list into the sidebar (one inactive item for each conversation of the answer,
  the empty notice for an empty or failed answer) and resets the chat area to the welcome
  view with no conversation and no streaming message. With the socket open that is all it
  does besides asking the server for a new conversation and showing the success toast.
\<close>

theorem delete_flow:
  "(currentConversationId s = Some i \<and> i \<noteq> 0 \<longrightarrow>
      clearCurrentChat True s =
        ((s\<lparr>api_requests := api_requests s @ [DeleteConversation i]\<rparr>, None),
         Awaiting (DeleteConversation i)))
   \<and> clearCurrentChat_deleted False s =
        ((s\<lparr>toasts := toasts s @ [(''Failed to delete conversation'', ToastError)]\<rparr>, None),
         Returned)
   \<and> clearCurrentChat_deleted True s =
        ((s\<lparr>currentConversationId := None, currentAssistantMessage := None,
            conversationsList := Updating,
            api_requests := api_requests s @ [ListConversations]\<rparr>, None),
         Awaiting ListConversations)
   \<and> currentConversationId (fst (fst (clearCurrentChat_listed r s))) = None
   \<and> currentAssistantMessage (fst (fst (clearCurrentChat_listed r s))) = None
   \<and> chatMessages (fst (fst (clearCurrentChat_listed r s))) = [Welcome]
   \<and> conversationsList (fst (fst (clearCurrentChat_listed r s))) = refreshed r
   \<and> snd (clearCurrentChat_listed r s) = Returned
   \<and> (websocket s = Some OPEN \<longrightarrow>
        clearCurrentChat_listed r s =
          ((s\<lparr>currentConversationId := None, currentAssistantMessage := None,
              chatMessages := [Welcome], conversationsList := refreshed r,
              toasts := toasts s @ [(''Conversation deleted permanently'', ToastSuccess)],
              outbox := outbox s @ [NewConversation]\<rparr>, None),
           Returned))"
proof -
  obtain sb where d: "loadConversations_done r s = s\<lparr>conversationsList := sb\<rparr>"
    and sb: "deactivate_all sb = refreshed r"
    using done_shape [of r s] by blast
  have first: "currentConversationId s = Some i \<and> i \<noteq> 0 \<longrightarrow>
      clearCurrentChat True s =
        ((s\<lparr>api_requests := api_requests s @ [DeleteConversation i]\<rparr>, None),
         Awaiting (DeleteConversation i))"
    by (simp add: clearCurrentChat_def)
  have failed: "clearCurrentChat_deleted False s =
        ((s\<lparr>toasts := toasts s @ [(''Failed to delete conversation'', ToastError)]\<rparr>, None),
         Returned)"
    by (simp add: clearCurrentChat_deleted_def showToast_def)
  have deleted: "clearCurrentChat_deleted True s =
        ((s\<lparr>currentConversationId := None, currentAssistantMessage := None,
            conversationsList := Updating,
            api_requests := api_requests s @ [ListConversations]\<rparr>, None),
         Awaiting ListConversations)"
    by (simp add: clearCurrentChat_deleted_def loadConversations_def Let_def)
  have listed: "currentConversationId (fst (fst (clearCurrentChat_listed r s))) = None
     \<and> currentAssistantMessage (fst (fst (clearCurrentChat_listed r s))) = None
     \<and> chatMessages (fst (fst (clearCurrentChat_listed r s))) = [Welcome]
     \<and> conversationsList (fst (fst (clearCurrentChat_listed r s))) = refreshed r
     \<and> snd (clearCurrentChat_listed r s) = Returned"
    using sb
    by (simp add: clearCurrentChat_listed_def d startNewChat_def ws_send_def showToast_def
        Let_def split: option.splits ready_state.splits)
  have opened: "websocket s = Some OPEN \<longrightarrow>
        clearCurrentChat_listed r s =
          ((s\<lparr>currentConversationId := None, currentAssistantMessage := None,
              chatMessages := [Welcome], conversationsList := refreshed r,
              toasts := toasts s @ [(''Conversation deleted permanently'', ToastSuccess)],
              outbox := outbox s @ [NewConversation]\<rparr>, None),
           Returned)"
    using sb
    by (simp add: clearCurrentChat_listed_def d startNewChat_def ws_send_def showToast_def
        Let_def)
  show ?thesis
    using first failed deleted listed opened by blast
qed

theorem delete_flow_witness:
  "currentConversationId streaming_page = Some 7
   \<and> websocket streaming_page = Some OPEN
   \<and> fst (fst (clearCurrentChat True streaming_page))
       = streaming_page\<lparr>api_requests := [DeleteConversation 7]\<rparr>
   \<and> currentConversationId (fst (fst (clearCurrentChat_deleted False streaming_page))) = Some 7
   \<and> currentAssistantMessage (fst (fst (clearCurrentChat_deleted False streaming_page))) = Some 0
   \<and> chatMessages (fst (fst (clearCurrentChat_deleted False streaming_page))) = [Msg 0]
   \<and> toasts (fst (fst (clearCurrentChat_deleted False streaming_page)))
       = [(''Failed to delete conversation'', ToastError)]
   \<and> currentConversationId (fst (fst (clearCurrentChat_deleted True streaming_page))) = None
   \<and> conversationsList (fst (fst (clearCurrentChat_deleted True streaming_page))) = Updating
   \<and> chatMessages (fst (fst (clearCurrentChat_deleted True streaming_page))) = [Msg 0]
   \<and> chatMessages
       (fst (fst (clearCurrentChat_listed
          (Some [\<lparr>conv_id = 3, conv_title = ''a<b'', conv_message_count = 2,
                  conv_updated_at = ''d''\<rparr>]) streaming_page))) = [Welcome]
   \<and> conversationsList
       (fst (fst (clearCurrentChat_listed
          (Some [\<lparr>conv_id = 3, conv_title = ''a<b'', conv_message_count = 2,
                  conv_updated_at = ''d''\<rparr>]) streaming_page)))
       = Items [\<lparr>item_id = 3, item_title_html = ''a&lt;b'', item_message_count = 2,
                 item_updated_at = ''d'', item_active = False\<rparr>]
   \<and> outbox
       (fst (fst (clearCurrentChat_listed
          (Some [\<lparr>conv_id = 3, conv_title = ''a<b'', conv_message_count = 2,
                  conv_updated_at = ''d''\<rparr>]) streaming_page))) = [NewConversation]"
proof -
  let ?r = "Some [\<lparr>conv_id = 3, conv_title = ''a<b'', conv_message_count = 2,
                  conv_updated_at = ''d''\<rparr>]"
  have c: "currentConversationId streaming_page = Some 7"
    and w: "websocket streaming_page = Some OPEN"
    and a: "api_requests streaming_page = []"
    and t: "toasts streaming_page = []"
    and m: "chatMessages streaming_page = [Msg 0]"
    and k: "currentAssistantMessage streaming_page = Some 0"
    and o: "outbox streaming_page = []"
    by (simp_all add: streaming_page_def connected_page_def fresh_page_def)
  have f: "refreshed ?r
           = Items [\<lparr>item_id = 3, item_title_html = ''a&lt;b'', item_message_count = 2,
                 item_updated_at = ''d'', item_active = False\<rparr>]"
    by (simp add: refreshed_def escapeHtml_def escape_unit_def)
  show ?thesis
    using delete_flow [of streaming_page 7 ?r] c w a t m k o f by simp
qed

subsection \<open>Streaming an assistant message\<close>

lemma handle_chunk:
  "handleWebSocketMessage mp (chunk_frame f) s =
     (appendAssistantMessageChunk mp (f_content f) s, None)"
  by (simp add: chunk_frame_def handleWebSocketMessage_def catch_log_def message_body_def
      dispatch_def)

lemma handle_complete:
  "handleWebSocketMessage mp (complete_frame f) s = (completeAssistantMessage s, None)"
  by (simp add: complete_frame_def handleWebSocketMessage_def catch_log_def message_body_def
      dispatch_def)

lemma handle_frames_append:
  "handle_frames mp (xs @ ys) s = handle_frames mp ys (handle_frames mp xs s)"
  by (induction xs arbitrary: s) auto

text \<open>A chunk for an open message rewrites that element only.\<close>

lemma chunk_open:
  assumes "currentAssistantMessage s = Some m"
  shows "appendAssistantMessageChunk mp c s =
           s\<lparr>elements := (elements s)(m := (elements s m)
               \<lparr>raw_content := Some (raw_text (elements s m) @ c),
                text_html := processMessageContent mp (raw_text (elements s m) @ c) False\<rparr>)\<rparr>"
  using assms
  by (simp add: appendAssistantMessageChunk_def append_text_def raw_text_def Let_def)

text \<open>A chunk with no message open creates the element, appends it and fills it.\<close>

lemma chunk_closed:
  assumes "currentAssistantMessage s = None"
  shows "appendAssistantMessageChunk mp c s =
           s\<lparr>chatMessages := chatMessages s @ [Msg (next_element s)],
             elements := (elements s)(next_element s :=
               \<lparr>el_role = Assistant, avatar_html = Icon, raw_content = Some c,
                text_html = processMessageContent mp c False, el_stamp = Now\<rparr>),
             next_element := Suc (next_element s),
             currentAssistantMessage := Some (next_element s)\<rparr>"
  using assms
  by (simp add: appendAssistantMessageChunk_def append_text_def appendChild_new_def Let_def)

lemma chunk_run_open:
  assumes "currentAssistantMessage s = Some m"
  shows "currentAssistantMessage (handle_frames mp (map chunk_frame fs) s) = Some m
       \<and> chatMessages (handle_frames mp (map chunk_frame fs) s) = chatMessages s
       \<and> raw_text (elements (handle_frames mp (map chunk_frame fs) s) m)
           = raw_text (elements s m) @ concat (map f_content fs)
       \<and> (fs \<noteq> [] \<longrightarrow> raw_content (elements (handle_frames mp (map chunk_frame fs) s) m)
           = Some (raw_text (elements s m) @ concat (map f_content fs)))"
  using assms
proof (induction fs arbitrary: s)
  case Nil
  then show ?case by simp
next
  case (Cons f fs)
  let ?s1 = "appendAssistantMessageChunk mp (f_content f) s"
  have c: "currentAssistantMessage ?s1 = Some m"
    and r: "raw_text (elements ?s1 m) = raw_text (elements s m) @ f_content f"
    and k: "chatMessages ?s1 = chatMessages s"
    and r': "raw_content (elements ?s1 m) = Some (raw_text (elements s m) @ f_content f)"
    using Cons.prems by (simp_all add: chunk_open raw_text_def)
  show ?case
  proof (cases "fs = []")
    case True
    then show ?thesis using c r k r' by (simp add: handle_chunk)
  next
    case False
    then show ?thesis using Cons.IH [OF c] r k by (simp add: handle_chunk)
  qed
qed

text \<open>
  C1. A non-empty run of chunk events followed by one completion event. When no message was
  open at the start, the run creates one element at the end of the chat area, and after the
  completion its raw content is exactly the concatenation of the chunk texts in arrival
  order, and the streaming slot is free again. (When a message was already open, the chunk
  texts are appended, in order, behind the text it already had.)
\<close>

theorem chunks_concatenated:
  assumes "fs \<noteq> []"
  shows "(currentAssistantMessage s = None \<longrightarrow>
            (let s' = handle_frames mp (map chunk_frame fs @ [complete_frame g]) s in
             chatMessages s' = chatMessages s @ [Msg (next_element s)]
             \<and> raw_content (elements s' (next_element s)) = Some (concat (map f_content fs))
             \<and> currentAssistantMessage s' = None))
       \<and> (currentAssistantMessage s = Some m \<longrightarrow>
            (let s' = handle_frames mp (map chunk_frame fs @ [complete_frame g]) s in
             chatMessages s' = chatMessages s
             \<and> raw_content (elements s' m)
                 = Some (raw_text (elements s m) @ concat (map f_content fs))
             \<and> currentAssistantMessage s' = None))"
proof (intro conjI impI)
  assume n: "currentAssistantMessage s = None"
  from assms obtain f fs' where fs: "fs = f # fs'" by (cases fs) auto
  let ?s1 = "appendAssistantMessageChunk mp (f_content f) s"
  have c: "currentAssistantMessage ?s1 = Some (next_element s)"
    and k: "chatMessages ?s1 = chatMessages s @ [Msg (next_element s)]"
    and r: "raw_text (elements ?s1 (next_element s)) = f_content f"
    and r': "raw_content (elements ?s1 (next_element s)) = Some (f_content f)"
    using n by (simp_all add: chunk_closed raw_text_def)
  show "let s' = handle_frames mp (map chunk_frame fs @ [complete_frame g]) s in
             chatMessages s' = chatMessages s @ [Msg (next_element s)]
             \<and> raw_content (elements s' (next_element s)) = Some (concat (map f_content fs))
             \<and> currentAssistantMessage s' = None"
  proof (cases "fs' = []")
    case True
    then show ?thesis using fs k r'
      by (simp add: handle_chunk handle_complete completeAssistantMessage_def
          toggleTypingIndicator_def)
  next
    case False
    then show ?thesis using fs chunk_run_open [OF c, of mp fs'] k r
      by (simp add: handle_frames_append handle_chunk handle_complete
          completeAssistantMessage_def toggleTypingIndicator_def Let_def)
  qed
next
  assume o: "currentAssistantMessage s = Some m"
  show "let s' = handle_frames mp (map chunk_frame fs @ [complete_frame g]) s in
             chatMessages s' = chatMessages s
             \<and> raw_content (elements s' m)
                 = Some (raw_text (elements s m) @ concat (map f_content fs))
             \<and> currentAssistantMessage s' = None"
    using chunk_run_open [OF o, of mp fs] assms
    by (simp add: handle_frames_append handle_complete completeAssistantMessage_def
        toggleTypingIndicator_def Let_def)
qed

theorem chunks_concatenated_witness:
  "[with_content ''Hel'', with_content ''lo '', with_content ''world''] \<noteq> []
   \<and> currentAssistantMessage connected_page = None
   \<and> chatMessages
       (handle_frames paragraph_marked
          (map chunk_frame [with_content ''Hel'', with_content ''lo '', with_content ''world'']
           @ [complete_frame no_fields]) connected_page)
       = [Welcome, Msg 0]
   \<and> raw_content
       (elements
          (handle_frames paragraph_marked
             (map chunk_frame [with_content ''Hel'', with_content ''lo '', with_content ''world'']
              @ [complete_frame no_fields]) connected_page) 0)
       = Some ''Hello world''"
proof -
  have n: "currentAssistantMessage connected_page = None"
    and k: "chatMessages connected_page = [Welcome]"
    and e: "next_element connected_page = 0"
    by (simp_all add: connected_page_def fresh_page_def)
  have t: "concat (map f_content
             [with_content ''Hel'', with_content ''lo '', with_content ''world''])
           = ''Hello world''"
    by (simp add: with_content_def no_fields_def)
  have "let s' = handle_frames paragraph_marked
          (map chunk_frame [with_content ''Hel'', with_content ''lo '', with_content ''world'']
           @ [complete_frame no_fields]) connected_page
        in chatMessages s' = chatMessages connected_page @ [Msg (next_element connected_page)]
           \<and> raw_content (elements s' (next_element connected_page))
               = Some (concat (map f_content
                   [with_content ''Hel'', with_content ''lo '', with_content ''world'']))
           \<and> currentAssistantMessage s' = None"
    using chunks_concatenated
      [of "[with_content ''Hel'', with_content ''lo '', with_content ''world'']"
          connected_page paragraph_marked no_fields 0] n
    by blast
  then show ?thesis using n k e t by (simp add: Let_def)
qed

subsection \<open>Switching conversations while a message is streamed\<close>

lemma display_one_slot:
  "currentAssistantMessage (fst (display_one mp msg s)) = currentAssistantMessage s"
  by (simp add: display_one_def displayUserMessage_def appendChild_new_def split: option.splits)

lemma forEach_slot:
  "currentAssistantMessage (fst (forEach_msg mp msgs s)) = currentAssistantMessage s"
proof (induction msgs arbitrary: s)
  case Nil
  then show ?case by simp
next
  case (Cons msg msgs)
  obtain s1 e where d: "display_one mp msg s = (s1, e)"
    by (cases "display_one mp msg s")
  then have "currentAssistantMessage s1 = currentAssistantMessage s"
    using display_one_slot [of mp msg s] by simp
  with d Cons.IH [of s1] show ?case by (cases e) simp_all
qed

text \<open>Only the completion event releases the streaming slot.\<close>

lemma slot_kept:
  assumes "currentAssistantMessage s = Some m" and "\<not> is_complete r"
  shows "currentAssistantMessage (fst (handleWebSocketMessage mp r s)) = Some m"
proof (cases r)
  case ParseError
  then show ?thesis using assms
    by (simp add: handleWebSocketMessage_def catch_log_def message_body_def)
next
  case (Value d)
  show ?thesis
  proof (cases d)
    case WsNull
    then show ?thesis using assms Value
      by (simp add: handleWebSocketMessage_def catch_log_def message_body_def)
  next
    case (WsObject ty f)
    then show ?thesis
      using assms Value forEach_slot [of mp "f_messages f" "s\<lparr>chatMessages := []\<rparr>"]
      by (simp add: handleWebSocketMessage_def catch_log_def message_body_def dispatch_def
          is_complete_def displayUserMessage_def appendChild_new_def toggleTypingIndicator_def
          showToast_def chunk_open displayConversationHistory_def split: option.splits)
  qed
qed

lemma slot_kept_frames:
  assumes "currentAssistantMessage s = Some m" and "\<forall>r \<in> set rs. \<not> is_complete r"
  shows "currentAssistantMessage (handle_frames mp rs s) = Some m"
  using assms
proof (induction rs arbitrary: s)
  case Nil
  then show ?case by simp
next
  case (Cons r rs)
  then show ?case using slot_kept [of s m r mp] by simp
qed

lemma loadConversation_effect:
  "currentConversationId (fst (loadConversation i s)) = Some i
   \<and> currentAssistantMessage (fst (loadConversation i s)) = currentAssistantMessage s
   \<and> elements (fst (loadConversation i s)) = elements s
   \<and> chatMessages (fst (loadConversation i s)) = chatMessages s
   \<and> snd (loadConversation i s) = None"
  by (simp add: loadConversation_def ws_send_def showToast_def Let_def
      split: option.splits ready_state.splits)

text \<open>
  C10. \<open>loadConversation i\<close> sets \<open>currentConversationId\<close> to \<open>i\<close> at once, before any
  frame is handled, and leaves an open streaming message open, with its element untouched.
  Whatever frames arrive next, as long as none of them is a completion event, the slot
  still holds that element, and a chunk arriving then is appended to the text of that very
  element, which was opened under the previous conversation.
\<close>

theorem switch_keeps_stream:
  assumes "currentAssistantMessage s = Some m" and "\<forall>r \<in> set rs. \<not> is_complete r"
  shows "currentConversationId (fst (loadConversation i s)) = Some i
       \<and> currentAssistantMessage (fst (loadConversation i s)) = Some m
       \<and> elements (fst (loadConversation i s)) m = elements s m
       \<and> (let s2 = handle_frames mp rs (fst (loadConversation i s));
               s3 = fst (handleWebSocketMessage mp (chunk_frame f) s2)
           in currentAssistantMessage s2 = Some m
              \<and> currentAssistantMessage s3 = Some m
              \<and> chatMessages s3 = chatMessages s2
              \<and> raw_content (elements s3 m) = Some (raw_text (elements s2 m) @ f_content f))"
proof -
  let ?s1 = "fst (loadConversation i s)"
  have c1: "currentAssistantMessage ?s1 = Some m"
    using assms(1) loadConversation_effect [of i s] by simp
  have c2: "currentAssistantMessage (handle_frames mp rs ?s1) = Some m"
    using c1 assms(2) by (rule slot_kept_frames)
  show ?thesis using c1 c2 loadConversation_effect [of i s]
    by (simp add: Let_def handle_chunk chunk_open)
qed

theorem switch_keeps_stream_witness:
  "currentAssistantMessage streaming_page = Some 0
   \<and> \<not> is_complete (history_frame (with_messages []))
   \<and> currentConversationId (fst (loadConversation 9 streaming_page)) = Some 9
   \<and> outbox (fst (loadConversation 9 streaming_page)) = [LoadHistory 9]
   \<and> chatMessages
       (handle_frames paragraph_marked [history_frame (with_messages [])]
          (fst (loadConversation 9 streaming_page))) = []
   \<and> raw_content
       (elements
          (fst (handleWebSocketMessage paragraph_marked (chunk_frame (with_content ''lo''))
             (handle_frames paragraph_marked [history_frame (with_messages [])]
                (fst (loadConversation 9 streaming_page))))) 0)
       = Some ''Hello''"
proof -
  have a: "currentAssistantMessage streaming_page = Some 0"
    by (simp add: streaming_page_def connected_page_def fresh_page_def)
  have b: "\<forall>r \<in> set [history_frame (with_messages [])]. \<not> is_complete r"
    by (simp add: history_frame_def is_complete_def)
  have o: "outbox (fst (loadConversation 9 streaming_page)) = [LoadHistory 9]"
    by (simp add: loadConversation_def ws_send_def Let_def streaming_page_def
        connected_page_def fresh_page_def)
  let ?s1 = "fst (loadConversation 9 streaming_page)"
  let ?s2 = "handle_frames paragraph_marked [history_frame (with_messages [])] ?s1"
  have e1: "elements ?s1 = elements streaming_page"
    by (simp add: loadConversation_def ws_send_def Let_def streaming_page_def
        connected_page_def fresh_page_def)
  have h: "?s2 = ?s1\<lparr>chatMessages := []\<rparr>"
    by (simp add: history_frame_def with_messages_def no_fields_def handleWebSocketMessage_def
        catch_log_def message_body_def dispatch_def displayConversationHistory_def)
  have e2: "elements ?s2 = elements streaming_page"
    by (subst h) (simp add: e1)
  have r: "raw_text (elements ?s2 0) = ''Hel''"
    by (simp only: e2) (simp add: raw_text_def streaming_page_def)
  have k: "chatMessages ?s2 = []"
    by (subst h) simp
  have f: "f_content (with_content ''lo'') = ''lo''"
    by (simp add: with_content_def no_fields_def)
  show ?thesis
    using switch_keeps_stream [OF a b, of 9 paragraph_marked "with_content ''lo''"] a b o r k f
    by (simp add: Let_def del: handle_frames.simps)
qed

subsection \<open>History replaces the chat area\<close>

lemma appendChild_visible:
  assumes "ids_allocated s"
  shows "visible (appendChild_new el s) = visible s @ [Some el]"
    and "ids_allocated (appendChild_new el s)"
  using assms
  by (auto simp: visible_def ids_allocated_def appendChild_new_def list_all_iff
      split: node.splits)

lemma forEach_visible:
  assumes "currentUser s = Some u" and "ids_allocated s"
  shows "visible (fst (forEach_msg mp msgs s))
           = visible s @ map (\<lambda>msg. Some (shown mp u msg)) msgs
       \<and> currentUser (fst (forEach_msg mp msgs s)) = Some u
       \<and> snd (forEach_msg mp msgs s) = None"
  using assms
proof (induction msgs arbitrary: s)
  case Nil
  then show ?case by simp
next
  case (Cons msg msgs)
  let ?s1 = "appendChild_new (shown mp u msg) s"
  have d: "display_one mp msg s = (?s1, None)"
    using Cons.prems(1)
    by (simp add: display_one_def displayUserMessage_def shown_def processMessageContent_def)
  have u: "currentUser ?s1 = Some u"
    using Cons.prems(1) by (simp add: appendChild_new_def)
  have a: "ids_allocated ?s1"
    using Cons.prems(2) by (rule appendChild_visible)
  have v: "visible ?s1 = visible s @ [Some (shown mp u msg)]"
    using Cons.prems(2) by (rule appendChild_visible)
  show ?case using Cons.IH [OF u a] d v by simp
qed

lemma history_visible:
  assumes "currentUser s = Some u"
  shows "visible (fst (handleWebSocketMessage mp (history_frame f) s))
           = map (\<lambda>msg. Some (shown mp u msg)) (f_messages f)
       \<and> currentUser (fst (handleWebSocketMessage mp (history_frame f) s)) = Some u"
proof -
  let ?s0 = "s\<lparr>chatMessages := []\<rparr>"
  have u: "currentUser ?s0 = Some u" using assms by simp
  have a: "ids_allocated ?s0" by (simp add: ids_allocated_def)
  have v: "visible ?s0 = []" by (simp add: visible_def)
  show ?thesis
    using forEach_visible [OF u a, of mp "f_messages f"] v
    by (simp add: history_frame_def handleWebSocketMessage_def catch_log_def message_body_def
        dispatch_def displayConversationHistory_def)
qed

lemma appendChild_created:
  "created_since b s \<Longrightarrow> created_since b (appendChild_new el s)"
  by (auto simp: created_since_def appendChild_new_def)

lemma display_one_created:
  "created_since b s \<Longrightarrow> created_since b (fst (display_one mp msg s))"
  by (auto simp: display_one_def displayUserMessage_def appendChild_created
      split: option.splits)

lemma forEach_created:
  "created_since b s \<Longrightarrow> created_since b (fst (forEach_msg mp msgs s))"
proof (induction msgs arbitrary: s)
  case Nil
  then show ?case by simp
next
  case (Cons msg msgs)
  obtain s1 e where d: "display_one mp msg s = (s1, e)"
    by (cases "display_one mp msg s")
  then have c: "created_since b s1"
    using display_one_created [OF Cons.prems, of mp msg] by simp
  show ?case
  proof (cases e)
    case None
    then show ?thesis using d Cons.IH [OF c] by simp
  next
    case (Some x)
    then show ?thesis using d c by simp
  qed
qed

lemma history_created:
  "created_since (next_element s) (fst (handleWebSocketMessage mp (history_frame f) s))"
proof -
  have "created_since (next_element s) (s\<lparr>chatMessages := []\<rparr>)"
    by (simp add: created_since_def)
  then show ?thesis
    using forEach_created [of "next_element s" "s\<lparr>chatMessages := []\<rparr>" mp "f_messages f"]
    by (simp add: history_frame_def handleWebSocketMessage_def catch_log_def message_body_def
        dispatch_def displayConversationHistory_def)
qed

text \<open>
  With the user profile loaded, after two consecutive history events the chat area shows
  exactly the messages of the second payload, in the payload's order, each as the element
  that displays it; and in every state all that is displayed after a history event was
  created by it.
\<close>

lemma history_replaces_loaded:
  "created_since (next_element s) (fst (handleWebSocketMessage mp (history_frame f) s))
   \<and> (currentUser s = Some u \<longrightarrow>
        visible (handle_frames mp [history_frame f1, history_frame f2] s)
          = map (\<lambda>msg. Some (shown mp u msg)) (f_messages f2))"
proof (intro conjI impI)
  show "created_since (next_element s) (fst (handleWebSocketMessage mp (history_frame f) s))"
    by (rule history_created)
next
  assume a: "currentUser s = Some u"
  let ?s1 = "fst (handleWebSocketMessage mp (history_frame f1) s)"
  have "currentUser ?s1 = Some u"
    using history_visible [OF a, of mp f1] by simp
  then show "visible (handle_frames mp [history_frame f1, history_frame f2] s)
          = map (\<lambda>msg. Some (shown mp u msg)) (f_messages f2)"
    using history_visible [of ?s1 u mp f2] by simp
qed

text \<open>
  C3: the code does not do what the claim says when the profile request has failed.
  \<open>loadUserInfo\<close> catches that failure, shows a toast and lets the page go on with
  \<open>currentUser\<close> still null. A history event then empties the chat area and displays the
  payload only up to its first user message, where \<open>displayUserMessage\<close> throws on
  \<open>currentUser.github_avatar_url\<close> and ends the loop. After a first history event and a
  second one with an assistant, a user and an assistant message, only the first of the
  three is displayed; on the page with the profile loaded the same two events display all
  three.
\<close>

theorem history_without_profile:
  "currentUser profile_failed_page = None
   \<and> toasts profile_failed_page = [(''Failed to load user info'', ToastError)]
   \<and> visible
       (handle_frames paragraph_marked
          [history_frame (with_messages
             [\<lparr>msg_role = ''user'', msg_content = ''one'', msg_timestamp = ''t0''\<rparr>]),
           history_frame (with_messages
             [\<lparr>msg_role = ''assistant'', msg_content = ''a'', msg_timestamp = ''t1''\<rparr>,
              \<lparr>msg_role = ''user'', msg_content = ''b'', msg_timestamp = ''t2''\<rparr>,
              \<lparr>msg_role = ''assistant'', msg_content = ''c'', msg_timestamp = ''t3''\<rparr>])]
          profile_failed_page)
       = [Some \<lparr>el_role = Assistant, avatar_html = Icon, raw_content = None,
                 text_html = ''<p>a</p>'', el_stamp = At ''t1''\<rparr>]
   \<and> visible
       (handle_frames paragraph_marked
          [history_frame (with_messages
             [\<lparr>msg_role = ''user'', msg_content = ''one'', msg_timestamp = ''t0''\<rparr>]),
           history_frame (with_messages
             [\<lparr>msg_role = ''assistant'', msg_content = ''a'', msg_timestamp = ''t1''\<rparr>,
              \<lparr>msg_role = ''user'', msg_content = ''b'', msg_timestamp = ''t2''\<rparr>,
              \<lparr>msg_role = ''assistant'', msg_content = ''c'', msg_timestamp = ''t3''\<rparr>])]
          connected_page)
       = [Some \<lparr>el_role = Assistant, avatar_html = Icon, raw_content = None,
                 text_html = ''<p>a</p>'', el_stamp = At ''t1''\<rparr>,
          Some \<lparr>el_role = User, avatar_html = Img ''https://via.placeholder.com/36'',
                 raw_content = None, text_html = ''b'', el_stamp = At ''t2''\<rparr>,
          Some \<lparr>el_role = Assistant, avatar_html = Icon, raw_content = None,
                 text_html = ''<p>c</p>'', el_stamp = At ''t3''\<rparr>]"
  by (simp add: profile_failed_page_def loadUserInfo_done_def showToast_def connected_page_def
      fresh_page_def visible_def history_frame_def with_messages_def no_fields_def
      handleWebSocketMessage_def catch_log_def message_body_def dispatch_def
      displayConversationHistory_def display_one_def displayUserMessage_def
      appendChild_new_def processMessageContent_def renderMarkdown_def paragraph_marked_def
      escapeHtml_def escape_unit_def replace_newlines_def avatar_of_def match_here_def
      code_open_def)

subsection \<open>User-authored text\<close>

lemma replace_newlines_append:
  "replace_newlines (a @ b) = replace_newlines a @ replace_newlines b"
  by (simp add: replace_newlines_def)

lemma user_html_enc: "replace_newlines (escapeHtml t) = concat (map enc t)"
proof (induction t)
  case Nil
  show ?case by (simp add: escapeHtml_def replace_newlines_def)
next
  case (Cons c t)
  then show ?case by (simp add: escapeHtml_def enc_def replace_newlines_append)
qed

lemma enc_cases:
  "enc c =
     (if c = CHR ''&'' then ''&amp;''
      else if c = CHR 0xA0 then ''&nbsp;''
      else if c = CHR ''<'' then ''&lt;''
      else if c = CHR ''>'' then ''&gt;''
      else if c = CHR 0x0A then ''<br>''
      else [c])"
  by (simp add: enc_def escape_unit_def replace_newlines_def)

lemma user_html_no_lf: "CHR 0x0A \<notin> set (concat (map enc t))"
  by (induction t) (simp_all add: enc_cases)

lemma normalize_no_lf: "CHR 0x0A \<notin> set h \<Longrightarrow> normalize_newlines h = map cr_to_lf h"
  by (induction h rule: normalize_newlines.induct) (auto simp: cr_to_lf_def)

lemma map_option_single: "map_option ((@) [x]) r = map_option ((#) x) r"
  by (cases r) simp_all

lemma map_option_nil: "map_option ((@) []) r = r"
  by (cases r) simp_all

text \<open>The markup of one code unit is read back as the nodes of that code unit.\<close>

lemma tokenize_enc:
  "tokenize (map cr_to_lf (enc c) @ rest) = map_option ((@) (node_of c)) (tokenize rest)"
proof -
  consider "c = CHR ''&''" | "c = CHR 0xA0" | "c = CHR ''<''" | "c = CHR ''>''"
    | "c = CHR 0x0A" | "c = CHR 0x0D" | "c = CHR 0x00"
    | "c \<notin> {CHR ''&'', CHR 0xA0, CHR ''<'', CHR ''>'', CHR 0x0A, CHR 0x0D, CHR 0x00}"
    by blast
  then show ?thesis
    by cases
      (simp_all add: enc_cases cr_to_lf_def node_of_def char_ref_def map_option_single
        map_option_nil)
qed

lemma tokenize_user_html:
  "tokenize (map cr_to_lf (concat (map enc t))) = Some (concat (map node_of t))"
proof (induction t)
  case Nil
  then show ?case by simp
next
  case (Cons c t)
  then show ?case
    using tokenize_enc [of c "map cr_to_lf (concat (map enc t))"] by simp
qed

lemma parse_user_html:
  "parse_fragment (processMessageContent mp t True) = Some (concat (map node_of t))"
  by (simp add: parse_fragment_def processMessageContent_def user_html_enc
      normalize_no_lf [OF user_html_no_lf] tokenize_user_html)

lemma textContent_append: "textContent (a @ b) = textContent a @ textContent b"
  by (induction a rule: textContent.induct) simp_all

lemma text_with_breaks_append:
  "text_with_breaks (a @ b) = text_with_breaks a @ text_with_breaks b"
  by (induction a rule: text_with_breaks.induct) simp_all

lemma plain_text_nodes:
  assumes "CHR 0x0D \<notin> set t" and "CHR 0x00 \<notin> set t"
  shows "textContent (concat (map node_of t)) = filter (\<lambda>c. c \<noteq> CHR 0x0A) t"
    and "text_with_breaks (concat (map node_of t)) = t"
  using assms
  by (induction t) (auto simp: textContent_append text_with_breaks_append node_of_def)

text \<open>
  C7, as the claim states it, fails. The user text \<open>a\<close>, line feed, \<open>b\<close> is rendered as
  \<open>a<br>b\<close>; parsed back, its text content is \<open>ab\<close>, since the line-break element has no
  text: the line feed of the original is not in it. A carriage return does not come back
  either: the parser reads it as a line feed.
\<close>

theorem user_text_counterexample:
  "processMessageContent paragraph_marked ''a\<newline>b'' True = ''a<br>b''
   \<and> map_option textContent (parse_fragment ''a<br>b'') = Some ''ab''
   \<and> processMessageContent paragraph_marked [CHR ''a'', CHR 0x0D, CHR ''b''] True
       = [CHR ''a'', CHR 0x0D, CHR ''b'']
   \<and> map_option text_with_breaks (parse_fragment [CHR ''a'', CHR 0x0D, CHR ''b''])
       = Some ''a\<newline>b''"
  by (simp add: processMessageContent_def escapeHtml_def escape_unit_def replace_newlines_def
      parse_fragment_def)

text \<open>
  C7, amended. For every text, the markup rendered for a user message parses back into
  text and line-break elements only, one line-break element for each line feed of the
  text and the text's other code units as text: \<open>*\<close>, the backquote and \<open><\<close> come back
  as themselves and start no formatting. For a text without carriage return and NUL, the
  text content of the parsed markup is the text without its line feeds, and it is the text
  itself once every line-break element is read as a line feed.
\<close>

theorem user_text_roundtrip:
  "processMessageContent mp t True = replace_newlines (escapeHtml t)
   \<and> parse_fragment (processMessageContent mp t True) = Some (concat (map node_of t))
   \<and> (CHR 0x0D \<notin> set t \<and> CHR 0x00 \<notin> set t \<longrightarrow>
        map_option textContent (parse_fragment (processMessageContent mp t True))
          = Some (filter (\<lambda>c. c \<noteq> CHR 0x0A) t)
        \<and> map_option text_with_breaks (parse_fragment (processMessageContent mp t True))
          = Some t)"
  using parse_user_html [of mp t] plain_text_nodes [of t]
  by (simp add: processMessageContent_def)

theorem user_text_roundtrip_witness:
  "CHR 0x0D \<notin> set ''*a* `b` <i>c</i> & d\<newline>e''
   \<and> CHR 0x00 \<notin> set ''*a* `b` <i>c</i> & d\<newline>e''
   \<and> processMessageContent paragraph_marked ''*a* `b` <i>c</i> & d\<newline>e'' True
       = ''*a* `b` &lt;i&gt;c&lt;/i&gt; &amp; d<br>e''
   \<and> map_option textContent (parse_fragment ''*a* `b` &lt;i&gt;c&lt;/i&gt; &amp; d<br>e'')
       = Some ''*a* `b` <i>c</i> & de''
   \<and> map_option text_with_breaks
         (parse_fragment ''*a* `b` &lt;i&gt;c&lt;/i&gt; &amp; d<br>e'')
       = Some ''*a* `b` <i>c</i> & d\<newline>e''"
proof -
  let ?t = "''*a* `b` <i>c</i> & d\<newline>e''"
  have h1: "CHR 0x0D \<notin> set ?t" and h2: "CHR 0x00 \<notin> set ?t"
    by simp_all
  have p: "processMessageContent paragraph_marked ?t True
           = ''*a* `b` &lt;i&gt;c&lt;/i&gt; &amp; d<br>e''"
    by (simp add: processMessageContent_def escapeHtml_def escape_unit_def
        replace_newlines_def)
  have f: "filter (\<lambda>c. c \<noteq> CHR 0x0A) ?t = ''*a* `b` <i>c</i> & de''"
    by simp
  have q: "map_option textContent (parse_fragment (processMessageContent paragraph_marked ?t True))
             = Some (filter (\<lambda>c. c \<noteq> CHR 0x0A) ?t)
           \<and> map_option text_with_breaks
               (parse_fragment (processMessageContent paragraph_marked ?t True))
             = Some ?t"
    using user_text_roundtrip [of paragraph_marked ?t] h1 h2 by blast
  show ?thesis
    using h1 h2 p q [unfolded p f] by blast
qed

subsection \<open>Wrapping code blocks\<close>

text \<open>
  C5: the code does not do what the claim says. The markup that the markdown library
  produces for a fence with the language tag \<open>py\<close> is wrapped: the result is the wrapper
  with the language and the copy button. The markup it produces for a fence without a
  language tag has no \<open>class\<close> attribute on \<open>code\<close>, the pattern does not match, and
  \<open>renderMarkdown\<close> returns it as it came, without wrapper, language or button. The same
  happens for a tag such as \<open>c++\<close>, which is not made of word characters only.
\<close>

theorem untagged_fence_not_wrapped:
  \<open>wrapCodeBlocks ''<pre><code class="language-py">x\<newline></code></pre>\<newline>''
     = wrapper ''py'' ''x\<newline>'' @ ''\<newline>''
   \<and> renderMarkdown (\<lambda>md. Inr ''<pre><code>x\<newline></code></pre>\<newline>'') ''```\<newline>x\<newline>```''
     = ''<pre><code>x\<newline></code></pre>\<newline>''
   \<and> wrapCodeBlocks ''<pre><code class="language-c++">x\<newline></code></pre>\<newline>''
     = ''<pre><code class="language-c++">x\<newline></code></pre>\<newline>''\<close>
  by (simp add: renderMarkdown_def match_here_def code_open_def code_close_def is_word_def)

end
